theory Spec2Isabelle
  imports Complex_Main
begin

section \<open>Numbers, dictionaries and strings\<close>

text \<open>
  The agents compute with Python floats. They are modelled as real numbers with exact
  arithmetic: every comparison, branch and formula of the source is kept, the binary
  rounding of individual float operations is not. Python's \<^verbatim>\<open>round(x, n)\<close> is the
  one place where the source itself rounds; it is modelled as rounding to \<open>n\<close> decimal
  places, ties to the even neighbour.
\<close>

definition round_half_even :: "real \<Rightarrow> int" where
  "round_half_even x =
     (let f = \<lfloor>x\<rfloor>; d = x - of_int f
      in if d < 1 / 2 then f
         else if 1 / 2 < d then f + 1
         else if even f then f else f + 1)"

definition py_round :: "real \<Rightarrow> nat \<Rightarrow> real" where
  "py_round x n = of_int (round_half_even (x * 10 ^ n)) / 10 ^ n"

text \<open>
  A Python dict is an association list in insertion order, its keys distinct.
  \<^verbatim>\<open>d.get(k, default)\<close> and \<^verbatim>\<open>k in d\<close>:
\<close>

type_synonym 'v pydict = "(string \<times> 'v) list"

definition dict_get :: "'v pydict \<Rightarrow> string \<Rightarrow> 'v \<Rightarrow> 'v" where
  "dict_get d k dflt = (case map_of d k of Some v \<Rightarrow> v | None \<Rightarrow> dflt)"

text \<open>
  \<^verbatim>\<open>d[k]\<close>, used only where the key is known to be present: on a constant table that
  has the key, or under a membership test.
\<close>

definition dict_index :: "'v pydict \<Rightarrow> string \<Rightarrow> 'v" where
  "dict_index d k = the (map_of d k)"

definition dict_keys :: "'v pydict \<Rightarrow> string list" where
  "dict_keys d = map fst d"

definition dict_values :: "'v pydict \<Rightarrow> 'v list" where
  "dict_values d = map snd d"

text \<open>\<^verbatim>\<open>a or b\<close> on an optional float: \<^verbatim>\<open>None\<close> and \<^verbatim>\<open>0.0\<close> are falsy.\<close>

definition py_or :: "real option \<Rightarrow> real \<Rightarrow> real" where
  "py_or a b = (case a of Some v \<Rightarrow> if v \<noteq> 0 then v else b | None \<Rightarrow> b)"

text \<open>\<^verbatim>\<open>s.split("_")\<close>: the pieces between underscores; never the empty list.\<close>

fun split_underscore :: "string \<Rightarrow> string list" where
  "split_underscore [] = [[]]"
| "split_underscore (c # cs) =
     (if c = CHR ''_'' then [] # split_underscore cs
      else (c # hd (split_underscore cs)) # tl (split_underscore cs))"

datatype py_exception = ZeroDivisionError

section \<open>Shared data\<close>

text \<open>
  \<^verbatim>\<open>current_prices\<close> is a dict with the fixed keys apt, usdc and usdt
  (\<^verbatim>\<open>_update_prices\<close> only overwrites keys that exist).
\<close>

record prices =
  apt :: real
  usdc :: real
  usdt :: real

datatype risk_level = LOW | MEDIUM | HIGH | VERY_HIGH

datatype recommendation = EXECUTE | SKIP

section \<open>Investment optimizer agent\<close>

record optimizer =
  opt_current_prices :: prices

definition opt_dex_fees :: "real pydict" where
  "opt_dex_fees =
     [(''pancakeswap'', 0.25), (''liquidswap'', 0.30), (''thalaswap'', 0.20), (''hippo'', 0.30)]"

definition gas_costs :: "real pydict" where
  "gas_costs = [(''swap'', 0.001), (''add_liquidity'', 0.002), (''remove_liquidity'', 0.002)]"

text \<open>\<^verbatim>\<open>InvestmentOptimizerAgent._calculate_price_difference\<close>\<close>

definition opt_calculate_price_difference :: "optimizer \<Rightarrow> string \<Rightarrow> string \<Rightarrow> real" where
  "opt_calculate_price_difference self from_token to_token =
     (if from_token = ''usdc'' \<and> to_token = ''usdt'' then 1.2
      else if from_token = ''usdt'' \<and> to_token = ''usdc'' then 1.1
      else if ''apt'' \<in> set [from_token, to_token] then 0.9
      else 0.7)"

text \<open>\<^verbatim>\<open>InvestmentOptimizerAgent._estimate_slippage_for_amount\<close>\<close>

definition estimate_slippage_for_amount :: "real \<Rightarrow> real" where
  "estimate_slippage_for_amount trade_amount_usd =
     (if trade_amount_usd < 1000 then 0.02
      else if trade_amount_usd < 5000 then 0.05
      else if trade_amount_usd < 25000 then 0.15
      else if trade_amount_usd < 100000 then 0.35
      else 0.75)"

text \<open>\<^verbatim>\<open>InvestmentOptimizerAgent._assess_risk_level\<close>\<close>

definition opt_assess_risk_level :: "real \<Rightarrow> real \<Rightarrow> risk_level" where
  "opt_assess_risk_level profit_margin trade_amount_usd =
     (if profit_margin > 1.0 \<and> trade_amount_usd < 10000 then LOW
      else if profit_margin > 0.5 \<and> trade_amount_usd < 50000 then MEDIUM
      else if profit_margin > 0.2 then HIGH
      else VERY_HIGH)"

record breakdown =
  bd_gross_profit :: real
  bd_trading_fees :: real
  bd_gas_costs :: real
  bd_slippage_costs :: real
  bd_price_difference_percent :: real

record profit_data =
  pd_is_profitable :: bool
  pd_net_profit_usd :: real
  pd_profit_margin_percent :: real
  pd_roi_percent :: real
  pd_total_costs_usd :: real
  pd_risk_level :: risk_level
  pd_from_dex_fee :: real
  pd_to_dex_fee :: real
  pd_breakdown :: breakdown

text \<open>
  \<^verbatim>\<open>InvestmentOptimizerAgent._calculate_profit_for_amount\<close>. The two local fee
  percentages are kept in the result (\<open>pd_from_dex_fee\<close>, \<open>pd_to_dex_fee\<close>) so that
  they can be observed; every other field is a key of the returned dict.
\<close>

definition calculate_profit_for_amount ::
  "optimizer \<Rightarrow> real \<Rightarrow> real \<Rightarrow> string \<Rightarrow> string \<Rightarrow> real pydict \<Rightarrow> profit_data" where
  "calculate_profit_for_amount self apt_amount trade_amount_usd from_token to_token custom_dex_fees =
     (let from_dex_fee = dict_get custom_dex_fees ''from_dex'' (dict_get opt_dex_fees ''pancakeswap'' 0.25);
          to_dex_fee = dict_get custom_dex_fees ''to_dex'' (dict_get opt_dex_fees ''liquidswap'' 0.30);
          from_fee_amount = trade_amount_usd * (from_dex_fee / 100);
          to_fee_amount = trade_amount_usd * (to_dex_fee / 100);
          total_trading_fees = from_fee_amount + to_fee_amount;
          total_gas_cost_apt = dict_index gas_costs ''swap'' * 2;
          total_gas_cost_usd = total_gas_cost_apt * apt (opt_current_prices self);
          slippage_percent = estimate_slippage_for_amount trade_amount_usd;
          slippage_cost = trade_amount_usd * (slippage_percent / 100);
          total_costs = total_trading_fees + total_gas_cost_usd + slippage_cost;
          price_difference = opt_calculate_price_difference self from_token to_token;
          gross = trade_amount_usd * (price_difference / 100);
          net_profit = gross - total_costs;
          profit_margin = (if trade_amount_usd > 0 then (net_profit / trade_amount_usd) * 100 else 0)
      in \<lparr> pd_is_profitable = net_profit > 0,
           pd_net_profit_usd = net_profit,
           pd_profit_margin_percent = profit_margin,
           pd_roi_percent = (if trade_amount_usd > 0 then (net_profit / trade_amount_usd) * 100 else 0),
           pd_total_costs_usd = total_costs,
           pd_risk_level = opt_assess_risk_level profit_margin trade_amount_usd,
           pd_from_dex_fee = from_dex_fee,
           pd_to_dex_fee = to_dex_fee,
           pd_breakdown = \<lparr> bd_gross_profit = gross,
                            bd_trading_fees = total_trading_fees,
                            bd_gas_costs = total_gas_cost_usd,
                            bd_slippage_costs = slippage_cost,
                            bd_price_difference_percent = price_difference \<rparr> \<rparr>)"





section \<open>Arbitrage detector agent\<close>

text \<open>\<^verbatim>\<open>ArbitrageDetectorAgent._estimate_slippage\<close>\<close>

definition estimate_slippage :: "real \<Rightarrow> real" where
  "estimate_slippage trade_amount =
     (if trade_amount < 1000 then 0.02
      else if trade_amount < 5000 then 0.05
      else if trade_amount < 20000 then 0.15
      else 0.30)"

text \<open>\<^verbatim>\<open>ArbitrageDetectorAgent._assess_risk_level\<close>\<close>

definition assess_risk_level :: "real \<Rightarrow> real \<Rightarrow> risk_level" where
  "assess_risk_level profit_margin trade_amount =
     (if profit_margin > 1.0 \<and> trade_amount < 10000 then LOW
      else if profit_margin > 0.5 \<and> trade_amount < 50000 then MEDIUM
      else if profit_margin > 0.2 then HIGH
      else VERY_HIGH)"

record detector =
  current_prices :: prices
  cached_gas_price :: int

definition default_dex_fees :: "real pydict" where
  "default_dex_fees = [(''dex1'', 0.25), (''dex2'', 0.30), (''default'', 0.25)]"

definition gas_unit_costs :: "int pydict" where
  "gas_unit_costs = [(''swap'', 1000), (''add_liquidity'', 2000), (''remove_liquidity'', 2000)]"

text \<open>\<^verbatim>\<open>ArbitrageDetectorAgent._calculate_gas_cost_apt\<close>\<close>

definition calculate_gas_cost_apt :: "string \<Rightarrow> int \<Rightarrow> real" where
  "calculate_gas_cost_apt operation gas_unit_price =
     (let gas_units = dict_get gas_unit_costs operation 1000;
          cost_octas = gas_units * gas_unit_price;
          cost_apt = real_of_int cost_octas / 100000000
      in cost_apt)"

text \<open>
  The \<^verbatim>\<open>input_data\<close> dict of the detector's actions: each key may be absent. An absent
  \<^verbatim>\<open>custom_dex_fees\<close> reads as the empty dict.
\<close>

record route_input =
  in_from_pair :: "string option"
  in_to_pair :: "string option"
  in_trade_amount :: "real option"
  in_custom_dex_fees :: "real pydict option"
  in_from_dex :: "string option"
  in_to_dex :: "string option"

definition generic_keys :: "string list" where
  "generic_keys = [''Smart Contract'', ''default'', ''fee'', ''from_dex'', ''to_dex'']"

text \<open>
  The block that \<^verbatim>\<open>_calculate_charges\<close>, \<^verbatim>\<open>_check_profitability\<close> and
  \<^verbatim>\<open>_find_possibilities\<close> each repeat to compute \<^verbatim>\<open>available_dexs\<close>.
\<close>

definition available_dexs :: "real pydict \<Rightarrow> string list" where
  "available_dexs custom_dex_fees =
     (if custom_dex_fees \<noteq> [] then
        (let av = filter (\<lambda>dex. dex \<notin> set generic_keys) (dict_keys custom_dex_fees)
         in if av = [] \<and> ''Smart Contract'' \<in> set (dict_keys custom_dex_fees)
            then [''dex_a'', ''dex_b''] else av)
      else [])"

definition resolve_from_dex :: "route_input \<Rightarrow> string list \<Rightarrow> string" where
  "resolve_from_dex input_data av =
     (case in_from_dex input_data of Some d \<Rightarrow> d
      | None \<Rightarrow> if length av > 0 then av ! 0 else ''dex_a'')"

definition resolve_to_dex :: "route_input \<Rightarrow> string list \<Rightarrow> string" where
  "resolve_to_dex input_data av =
     (case in_to_dex input_data of Some d \<Rightarrow> d
      | None \<Rightarrow> if length av > 1 then av ! 1 else ''dex_b'')"

record route =
  route_from_pair :: string
  route_to_pair :: string
  route_from_dex :: string
  route_to_dex :: string
  route_trade_amount :: real

text \<open>
  The \<^verbatim>\<open>charges\<close> dict of the result, its nested dicts flattened (field
  \<open>ch_k\<close> is the key \<open>k\<close>). The
  \<^verbatim>\<open>timestamp\<close> and \<^verbatim>\<open>gas_source\<close> entries read the clock and are left out.
\<close>

record charges =
  ch_from_dex_fee_percent :: real
  ch_to_dex_fee_percent :: real
  ch_from_fee_amount_usd :: real
  ch_to_fee_amount_usd :: real
  ch_total_trading_fees_usd :: real
  ch_fees_applied :: bool
  ch_gas_unit_price_octas :: int
  ch_gas_units_per_swap :: int
  ch_total_gas_cost_apt :: real
  ch_total_gas_cost_usd :: real
  ch_operations :: nat
  ch_apt_price_used :: real
  ch_estimated_slippage_percent :: real
  ch_estimated_slippage_cost_usd :: real
  ch_total_fees_usd :: real
  ch_cost_percentage :: real
  ch_all_charges_summed :: real
  ch_breakdown_trading_fees :: real
  ch_breakdown_gas_costs :: real
  ch_breakdown_slippage :: real
  ch_percentage_of_investment :: real

record charges_result =
  cr_route :: route
  cr_charges :: charges

datatype failure =
    Charge_calculation_failed py_exception
  | Impossible_arbitrage route prices
  | Profitability_check_failed py_exception

text \<open>
  The fee percentages of the two legs, as \<^verbatim>\<open>_calculate_charges\<close> resolves them
  (the \<^verbatim>\<open>if custom_dex_fees: ... else: ...\<close> block).
\<close>

definition leg_fees :: "real pydict \<Rightarrow> string \<Rightarrow> string \<Rightarrow> real \<times> real" where
  "leg_fees custom_dex_fees from_dex to_dex =
     (if custom_dex_fees \<noteq> [] then
        (let specific_dex_names =
               filter (\<lambda>dex. dex \<notin> set generic_keys) (dict_keys custom_dex_fees)
         in if specific_dex_names \<noteq> [] then
              (dict_get custom_dex_fees from_dex (dict_get default_dex_fees ''default'' 0.25),
               dict_get custom_dex_fees to_dex (dict_get default_dex_fees ''default'' 0.25))
            else if ''Smart Contract'' \<in> set (dict_keys custom_dex_fees) then
              (let base_rate = dict_index custom_dex_fees ''Smart Contract''
               in (base_rate, base_rate))
            else
              (let generic_fee =
                     py_or (map_of custom_dex_fees ''default'')
                       (py_or (map_of custom_dex_fees ''fee'') (hd (dict_values custom_dex_fees)))
               in (generic_fee, generic_fee)))
      else (0, 0))"

text \<open>
  \<^verbatim>\<open>ArbitrageDetectorAgent._calculate_charges\<close>. The one statement of the
  \<^verbatim>\<open>try\<close> block that can raise on numeric input is the division by
  \<^verbatim>\<open>trade_amount\<close> while the result dict is built; the \<^verbatim>\<open>except\<close> branch turns
  it into an error result.
\<close>

definition calculate_charges :: "detector \<Rightarrow> route_input \<Rightarrow> failure + charges_result" where
  "calculate_charges self input_data =
     (let from_pair = (case in_from_pair input_data of Some p \<Rightarrow> p | None \<Rightarrow> ''usdc_apt'');
          to_pair = (case in_to_pair input_data of Some p \<Rightarrow> p | None \<Rightarrow> ''usdt_apt'');
          trade_amount = (case in_trade_amount input_data of Some a \<Rightarrow> a | None \<Rightarrow> 1000);
          custom_dex_fees = (case in_custom_dex_fees input_data of Some d \<Rightarrow> d | None \<Rightarrow> []);
          av = available_dexs custom_dex_fees;
          from_dex = resolve_from_dex input_data av;
          to_dex = resolve_to_dex input_data av;
          from_dex_fee = fst (leg_fees custom_dex_fees from_dex to_dex);
          to_dex_fee = snd (leg_fees custom_dex_fees from_dex to_dex);
          gas_unit_price = cached_gas_price self;
          swap_gas_apt = calculate_gas_cost_apt ''swap'' gas_unit_price;
          total_gas_cost_apt = swap_gas_apt * 2;
          apt_price = apt (current_prices self);
          total_gas_cost_usd = total_gas_cost_apt * apt_price;
          from_fee_amount = trade_amount * (from_dex_fee / 100);
          to_fee_amount = trade_amount * (to_dex_fee / 100);
          total_trading_fees = from_fee_amount + to_fee_amount;
          slippage_percent = estimate_slippage trade_amount;
          slippage_cost = trade_amount * (slippage_percent / 100);
          total_charges = total_trading_fees + total_gas_cost_usd + slippage_cost
      in if trade_amount = 0 then Inl (Charge_calculation_failed ZeroDivisionError)
         else Inr \<lparr> cr_route = \<lparr> route_from_pair = from_pair, route_to_pair = to_pair,
                                  route_from_dex = from_dex, route_to_dex = to_dex,
                                  route_trade_amount = trade_amount \<rparr>,
                    cr_charges =
                      \<lparr> ch_from_dex_fee_percent = from_dex_fee,
                        ch_to_dex_fee_percent = to_dex_fee,
                        ch_from_fee_amount_usd = py_round from_fee_amount 4,
                        ch_to_fee_amount_usd = py_round to_fee_amount 4,
                        ch_total_trading_fees_usd = py_round total_trading_fees 4,
                        ch_fees_applied = (from_dex_fee > 0 \<or> to_dex_fee > 0),
                        ch_gas_unit_price_octas = gas_unit_price,
                        ch_gas_units_per_swap = dict_index gas_unit_costs ''swap'',
                        ch_total_gas_cost_apt = py_round total_gas_cost_apt 6,
                        ch_total_gas_cost_usd = py_round total_gas_cost_usd 4,
                        ch_operations = 2,
                        ch_apt_price_used = apt_price,
                        ch_estimated_slippage_percent = slippage_percent,
                        ch_estimated_slippage_cost_usd = py_round slippage_cost 4,
                        ch_total_fees_usd = py_round total_charges 4,
                        ch_cost_percentage = py_round ((total_charges / trade_amount) * 100) 4,
                        ch_all_charges_summed = py_round total_charges 4,
                        ch_breakdown_trading_fees = py_round total_trading_fees 4,
                        ch_breakdown_gas_costs = py_round total_gas_cost_usd 4,
                        ch_breakdown_slippage = py_round slippage_cost 4,
                        ch_percentage_of_investment = py_round ((total_charges / trade_amount) * 100) 4 \<rparr> \<rparr>)"

text \<open>\<^verbatim>\<open>ArbitrageDetectorAgent._is_round_trip_same_pair\<close>\<close>

definition is_round_trip_same_pair :: "string \<Rightarrow> string \<Rightarrow> bool" where
  "is_round_trip_same_pair from_pair to_pair =
     (let from_tokens = set (split_underscore from_pair);
          to_tokens = set (split_underscore to_pair)
      in from_tokens = to_tokens)"

definition dex_price_factors :: "real pydict" where
  "dex_price_factors =
     [(''dex_a'', 1.000), (''dex_b'', 1.000), (''liquidswap'', 1.000),
      (''pancakeswap'', 1.002), (''thalaswap'', 0.998), (''hippo'', 1.001)]"

text \<open>
  \<^verbatim>\<open>ArbitrageDetectorAgent._calculate_price_difference\<close>. The float \<open>-999.0\<close> is
  the source's signal for an invalid price and for an impossible route alike.
\<close>

definition calculate_price_difference ::
  "detector \<Rightarrow> string \<Rightarrow> string \<Rightarrow> string \<Rightarrow> string \<Rightarrow> real" where
  "calculate_price_difference self from_pair to_pair from_dex to_dex =
     (if apt (current_prices self) \<le> 0 \<or> usdc (current_prices self) \<le> 0
         \<or> usdt (current_prices self) \<le> 0 then - 999.0
      else if from_dex \<in> set [''dex_a'', ''dex_b''] \<and> to_dex \<in> set [''dex_a'', ''dex_b'']
              \<and> is_round_trip_same_pair from_pair to_pair then - 999.0
      else
        (let apt_price = apt (current_prices self);
             usdc_price = usdc (current_prices self);
             usdt_price = usdt (current_prices self);
             from_factor = dict_get dex_price_factors from_dex 1.0;
             to_factor = dict_get dex_price_factors to_dex 1.0;
             dex_spread =
               (if from_dex \<in> set [''dex_a'', ''dex_b''] \<and> to_dex \<in> set [''dex_a'', ''dex_b'']
                then 0.0 else \<bar>from_factor - to_factor\<bar> * 100)
         in if from_pair = ''usdc_apt'' \<and> to_pair = ''usdt_apt'' then
              (let usdc_apt_rate = (if usdc_price > 0 then apt_price / usdc_price else 0);
                   usdt_apt_rate = (if usdt_price > 0 then apt_price / usdt_price else 0)
               in if usdc_apt_rate = 0 \<or> usdt_apt_rate = 0 then - 999.0
                  else (let rate_diff = \<bar>usdc_apt_rate - usdt_apt_rate\<bar> / usdc_apt_rate * 100;
                            total_spread = 0.6 + (rate_diff * 0.1) + dex_spread
                        in min total_spread 3.0))
            else if from_pair = ''usdt_apt'' \<and> to_pair = ''usdc_apt'' then
              (let usdt_apt_rate = (if usdt_price > 0 then apt_price / usdt_price else 0);
                   usdc_apt_rate = (if usdc_price > 0 then apt_price / usdc_price else 0)
               in if usdt_apt_rate = 0 \<or> usdc_apt_rate = 0 then - 999.0
                  else (let rate_diff = \<bar>usdt_apt_rate - usdc_apt_rate\<bar> / usdt_apt_rate * 100;
                            total_spread = 0.5 + (rate_diff * 0.1) + dex_spread
                        in min total_spread 3.0))
            else if from_pair = ''apt_usdc'' \<and> to_pair = ''apt_usdt'' then
              (if usdc_price = 0 \<or> usdt_price = 0 then - 999.0
               else (let stablecoin_diff = \<bar>usdc_price - usdt_price\<bar> / usdc_price * 100;
                         total_spread = 0.3 + stablecoin_diff + dex_spread
                     in min total_spread 2.0))
            else if from_pair = ''apt_usdt'' \<and> to_pair = ''apt_usdc'' then
              (if usdc_price = 0 \<or> usdt_price = 0 then - 999.0
               else (let stablecoin_diff = \<bar>usdt_price - usdc_price\<bar> / usdt_price * 100;
                         total_spread = 0.4 + stablecoin_diff + dex_spread
                     in min total_spread 2.0))
            else
              (if apt_price = 0 \<or> usdc_price = 0 \<or> usdt_price = 0 then - 999.0
               else if dex_spread = 0.0 then 0.05
               else 0.2 + dex_spread)))"

record profitability =
  is_profitable :: bool
  price_difference_percent :: real
  gross_profit_usd :: real
  total_costs_usd :: real
  net_profit_usd :: real
  profit_margin_percent :: real
  roi_percent :: real

record profitability_result =
  pr_route :: route
  pr_profitability :: profitability
  pr_charges :: charges
  pr_recommendation :: recommendation
  pr_risk_level :: risk_level

text \<open>
  \<^verbatim>\<open>ArbitrageDetectorAgent._check_profitability\<close>. After a successful charge
  calculation \<^verbatim>\<open>trade_amount\<close> is not zero and both later divisions are guarded, so
  its own \<^verbatim>\<open>except\<close> branch is not reached on numeric input.
\<close>

definition check_profitability :: "detector \<Rightarrow> route_input \<Rightarrow> failure + profitability_result" where
  "check_profitability self input_data =
     (case calculate_charges self input_data of
        Inl e \<Rightarrow> Inl e
      | Inr charges_result \<Rightarrow>
          (let from_pair = (case in_from_pair input_data of Some p \<Rightarrow> p | None \<Rightarrow> ''usdc_apt'');
               to_pair = (case in_to_pair input_data of Some p \<Rightarrow> p | None \<Rightarrow> ''usdt_apt'');
               trade_amount = (case in_trade_amount input_data of Some a \<Rightarrow> a | None \<Rightarrow> 1000);
               custom_dex_fees =
                 (case in_custom_dex_fees input_data of Some d \<Rightarrow> d | None \<Rightarrow> []);
               av = available_dexs custom_dex_fees;
               from_dex = resolve_from_dex input_data av;
               to_dex = resolve_to_dex input_data av;
               price_difference = calculate_price_difference self from_pair to_pair from_dex to_dex
           in if price_difference = - 999.0 then
                Inl (Impossible_arbitrage
                       \<lparr> route_from_pair = from_pair, route_to_pair = to_pair,
                         route_from_dex = from_dex, route_to_dex = to_dex,
                         route_trade_amount = trade_amount \<rparr>
                       (current_prices self))
              else
                (let gross_profit = trade_amount * (price_difference / 100);
                     total_costs = ch_total_fees_usd (cr_charges charges_result);
                     net_profit = gross_profit - total_costs;
                     profitable = net_profit > 0;
                     profit_margin =
                       (if trade_amount > 0 then (net_profit / trade_amount) * 100 else 0)
                 in Inr \<lparr> pr_route = cr_route charges_result,
                            pr_profitability =
                              \<lparr> is_profitable = profitable,
                                price_difference_percent = py_round price_difference 4,
                                gross_profit_usd = py_round gross_profit 4,
                                total_costs_usd = py_round total_costs 4,
                                net_profit_usd = py_round net_profit 4,
                                profit_margin_percent = py_round profit_margin 4,
                                roi_percent =
                                  (if trade_amount > 0
                                   then py_round ((net_profit / trade_amount) * 100) 4 else 0) \<rparr>,
                            pr_charges = cr_charges charges_result,
                            pr_recommendation =
                              (if profitable \<and> profit_margin > 0.5 then EXECUTE else SKIP),
                            pr_risk_level = assess_risk_level profit_margin trade_amount \<rparr>)))"









section \<open>Initial agent states\<close>

text \<open>The instance attributes that \<^verbatim>\<open>__init__\<close> sets in each agent.\<close>

definition default_detector :: detector where
  "default_detector =
     \<lparr> current_prices = \<lparr> apt = 12.45, usdc = 1.00, usdt = 0.999 \<rparr>, cached_gas_price = 100 \<rparr>"

definition default_optimizer :: optimizer where
  "default_optimizer = \<lparr> opt_current_prices = \<lparr> apt = 12.45, usdc = 1.00, usdt = 0.999 \<rparr> \<rparr>"

section \<open>Quantities and inputs used in the statements\<close>

text \<open>
  \<^verbatim>\<open>total_charges\<close> of \<^verbatim>\<open>_calculate_charges\<close> before any rounding, as a function
  of the trade amount and the two resolved fee percentages: trading fees of both legs, the
  gas of two swaps in USD, and the slippage cost.
\<close>

definition unrounded_total :: "detector \<Rightarrow> real \<Rightarrow> real \<Rightarrow> real \<Rightarrow> real" where
  "unrounded_total self a from_fee to_fee =
     (a * (from_fee / 100) + a * (to_fee / 100))
     + calculate_gas_cost_apt ''swap'' (cached_gas_price self) * 2 * apt (current_prices self)
     + a * (estimate_slippage a / 100)"

text \<open>Two \<^verbatim>\<open>getcharges\<close> requests that give a trade amount and nothing else.\<close>

definition negative_amount_input :: route_input where
  "negative_amount_input =
     \<lparr> in_from_pair = None, in_to_pair = None, in_trade_amount = Some (- 1000),
       in_custom_dex_fees = None, in_from_dex = None, in_to_dex = None \<rparr>"

definition seven_usd_input :: route_input where
  "seven_usd_input =
     \<lparr> in_from_pair = None, in_to_pair = None, in_trade_amount = Some 7,
       in_custom_dex_fees = None, in_from_dex = None, in_to_dex = None \<rparr>"





section \<open>Risk tiers\<close>

text \<open>
  Claim C6: the risk tier is LOW iff the margin exceeds 1.0 and the trade amount is below
  10,000; else MEDIUM iff the margin exceeds 0.5 and the amount is below 50,000; else HIGH
  iff the margin exceeds 0.2; else VERY_HIGH. The inequalities are strict, so a margin of
  exactly 1.0, 0.5 or 0.2 is never placed in the tier that threshold opens. The detector's
  and the optimizer's functions agree.
\<close>

theorem risk_tier_boundaries:
  "(assess_risk_level m a = LOW) = (m > 1.0 \<and> a < 10000)
   \<and> (assess_risk_level m a = MEDIUM) = (\<not> (m > 1.0 \<and> a < 10000) \<and> m > 0.5 \<and> a < 50000)
   \<and> (assess_risk_level m a = HIGH)
       = (\<not> (m > 1.0 \<and> a < 10000) \<and> \<not> (m > 0.5 \<and> a < 50000) \<and> m > 0.2)
   \<and> (assess_risk_level m a = VERY_HIGH)
       = (\<not> (m > 1.0 \<and> a < 10000) \<and> \<not> (m > 0.5 \<and> a < 50000) \<and> \<not> m > 0.2)
   \<and> opt_assess_risk_level m a = assess_risk_level m a
   \<and> assess_risk_level 1.0 a \<noteq> LOW
   \<and> assess_risk_level 0.5 a \<noteq> LOW \<and> assess_risk_level 0.5 a \<noteq> MEDIUM
   \<and> assess_risk_level 0.2 a = VERY_HIGH"
  by (simp add: assess_risk_level_def opt_assess_risk_level_def)

theorem risk_tier_boundaries_witness:
  "assess_risk_level 1.0 5000 = MEDIUM \<and> assess_risk_level 1.0001 5000 = LOW
   \<and> assess_risk_level 0.5 5000 = HIGH \<and> assess_risk_level 0.2 5000 = VERY_HIGH
   \<and> opt_assess_risk_level 1.0 5000 = MEDIUM"
  using risk_tier_boundaries [of "1.0" 5000] risk_tier_boundaries [of "1.0001" 5000]
    risk_tier_boundaries [of "0.5" 5000] risk_tier_boundaries [of "0.2" 5000]
  by simp

section \<open>Slippage\<close>

lemma estimate_slippage_mono: "a1 \<le> a2 \<Longrightarrow> estimate_slippage a1 \<le> estimate_slippage a2"
  by (simp add: estimate_slippage_def)

lemma estimate_slippage_for_amount_mono:
  "a1 \<le> a2 \<Longrightarrow> estimate_slippage_for_amount a1 \<le> estimate_slippage_for_amount a2"
  by (simp add: estimate_slippage_for_amount_def)

lemma estimate_slippage_nonneg: "0 \<le> estimate_slippage a"
  by (simp add: estimate_slippage_def)

lemma estimate_slippage_for_amount_nonneg: "0 \<le> estimate_slippage_for_amount a"
  by (simp add: estimate_slippage_for_amount_def)

lemma cost_mono:
  fixes a1 a2 s1 s2 :: real
  assumes "0 < a1" "a1 \<le> a2" "0 \<le> s1" "s1 \<le> s2"
  shows "a1 * (s1 / 100) \<le> a2 * (s2 / 100)"
proof -
  have "a1 * s1 \<le> a2 * s2"
    using assms by (intro mult_mono) auto
  then show ?thesis by simp
qed

text \<open>
  Claim C9: for the detector's four-band and the optimizer's five-band slippage policy and
  all trade amounts \<open>0 < a1 \<le> a2\<close>, the slippage percentage is non-decreasing, and so is
  the slippage cost \<open>a * (slippage a / 100)\<close>, the expression both cost paths compute.
\<close>

theorem slippage_monotone:
  assumes "0 < a1" and "a1 \<le> a2"
  shows "estimate_slippage a1 \<le> estimate_slippage a2
       \<and> estimate_slippage_for_amount a1 \<le> estimate_slippage_for_amount a2
       \<and> a1 * (estimate_slippage a1 / 100) \<le> a2 * (estimate_slippage a2 / 100)
       \<and> a1 * (estimate_slippage_for_amount a1 / 100)
           \<le> a2 * (estimate_slippage_for_amount a2 / 100)"
  using assms cost_mono [OF assms estimate_slippage_nonneg estimate_slippage_mono [OF assms(2)]]
    cost_mono [OF assms estimate_slippage_for_amount_nonneg
      estimate_slippage_for_amount_mono [OF assms(2)]]
    estimate_slippage_mono [OF assms(2)] estimate_slippage_for_amount_mono [OF assms(2)]
  by simp

theorem slippage_monotone_witness:
  "(0::real) < 999 \<and> (999::real) \<le> 1000
   \<and> estimate_slippage 999 \<le> estimate_slippage 1000
   \<and> estimate_slippage_for_amount 999 \<le> estimate_slippage_for_amount 1000
   \<and> 999 * (estimate_slippage 999 / 100) \<le> 1000 * (estimate_slippage 1000 / 100)
   \<and> 999 * (estimate_slippage_for_amount 999 / 100)
       \<le> 1000 * (estimate_slippage_for_amount 1000 / 100)"
proof -
  have h1: "(0::real) < 999" and h2: "(999::real) \<le> 1000" by simp_all
  show ?thesis using h1 h2 slippage_monotone [OF h1 h2] by simp
qed

section \<open>The optimizer's assumed spread\<close>



section \<open>The detector's spread model\<close>

lemma is_round_trip_same_pair_iff:
  "is_round_trip_same_pair from_pair to_pair
   = ((\<forall>x \<in> set (split_underscore from_pair). x \<in> set (split_underscore to_pair))
      \<and> (\<forall>x \<in> set (split_underscore to_pair). x \<in> set (split_underscore from_pair)))"
  unfolding is_round_trip_same_pair_def Let_def by blast

lemma not_round_trip_usdc_usdt: "\<not> is_round_trip_same_pair ''usdc_apt'' ''usdt_apt''"
  by (simp add: is_round_trip_same_pair_iff)

lemma generic_factor:
  "d \<in> set [''dex_a'', ''dex_b''] \<Longrightarrow> dict_get dex_price_factors d dflt = 1"
  by (auto simp add: dict_get_def dex_price_factors_def)

lemma generic_dex_spread:
  "(if from_dex \<in> set [''dex_a'', ''dex_b''] \<and> to_dex \<in> set [''dex_a'', ''dex_b'']
    then 0.0
    else \<bar>dict_get dex_price_factors from_dex 1.0 - dict_get dex_price_factors to_dex 1.0\<bar> * 100)
   = \<bar>dict_get dex_price_factors from_dex 1.0 - dict_get dex_price_factors to_dex 1.0\<bar> * 100"
  using generic_factor [of from_dex "1.0"] generic_factor [of to_dex "1.0"]
  by (simp del: set_simps)

text \<open>
  Claim C5: with positive prices, the spread of a route from usdc_apt to usdt_apt (which is
  never an impossible route) is \<open>min (0.6 + 0.1 * d + s) 3.0\<close>, where \<open>d\<close> is the relative
  difference in percent of the cross rates apt/usdc and apt/usdt, taken relative to
  apt/usdc, and \<open>s\<close> is 100 times the distance of the two DEX factors of the fixed table
  (factor 1.0 for an unknown DEX); \<open>s\<close> is zero when both DEXs are generic placeholders.
\<close>

theorem spread_usdc_apt_to_usdt_apt:
  assumes "0 < apt (current_prices self)" and "0 < usdc (current_prices self)"
    and "0 < usdt (current_prices self)"
  shows "calculate_price_difference self ''usdc_apt'' ''usdt_apt'' from_dex to_dex
         = min (0.6
                + 0.1 * (\<bar>apt (current_prices self) / usdc (current_prices self)
                          - apt (current_prices self) / usdt (current_prices self)\<bar>
                         / (apt (current_prices self) / usdc (current_prices self)) * 100)
                + \<bar>dict_get dex_price_factors from_dex 1.0
                    - dict_get dex_price_factors to_dex 1.0\<bar> * 100) 3.0
       \<and> (from_dex \<in> {''dex_a'', ''dex_b''} \<and> to_dex \<in> {''dex_a'', ''dex_b''}
            \<longrightarrow> \<bar>dict_get dex_price_factors from_dex 1.0
                    - dict_get dex_price_factors to_dex 1.0\<bar> * 100 = 0)"
proof -
  have np: "\<not> (apt (current_prices self) \<le> 0 \<or> usdc (current_prices self) \<le> 0
               \<or> usdt (current_prices self) \<le> 0)"
    using assms by simp
  have nz: "apt (current_prices self) \<noteq> 0" "usdc (current_prices self) \<noteq> 0"
    "usdt (current_prices self) \<noteq> 0"
    using assms by simp_all
  have first: "calculate_price_difference self ''usdc_apt'' ''usdt_apt'' from_dex to_dex
         = min (0.6
                + 0.1 * (\<bar>apt (current_prices self) / usdc (current_prices self)
                          - apt (current_prices self) / usdt (current_prices self)\<bar>
                         / (apt (current_prices self) / usdc (current_prices self)) * 100)
                + \<bar>dict_get dex_price_factors from_dex 1.0
                    - dict_get dex_price_factors to_dex 1.0\<bar> * 100) 3.0"
    unfolding calculate_price_difference_def Let_def generic_dex_spread
    using np nz assms not_round_trip_usdc_usdt
    by (simp del: set_simps add: mult.commute)
  have second: "from_dex \<in> {''dex_a'', ''dex_b''} \<and> to_dex \<in> {''dex_a'', ''dex_b''}
            \<longrightarrow> \<bar>dict_get dex_price_factors from_dex 1.0
                    - dict_get dex_price_factors to_dex 1.0\<bar> * 100 = 0"
    using generic_factor [of from_dex "1.0"] generic_factor [of to_dex "1.0"]
    by simp
  from first second show ?thesis by (rule conjI)
qed

theorem spread_usdc_apt_to_usdt_apt_witness:
  "0 < apt (current_prices default_detector) \<and> 0 < usdc (current_prices default_detector)
   \<and> 0 < usdt (current_prices default_detector)
   \<and> calculate_price_difference default_detector ''usdc_apt'' ''usdt_apt''
        ''pancakeswap'' ''thalaswap'' = 1009 / 999
   \<and> calculate_price_difference default_detector ''usdc_apt'' ''usdt_apt''
        ''dex_a'' ''dex_b'' = 3047 / 4995"
proof -
  have h: "0 < apt (current_prices default_detector)" "0 < usdc (current_prices default_detector)"
    "0 < usdt (current_prices default_detector)"
    by (simp_all add: default_detector_def)
  show ?thesis
    using h spread_usdc_apt_to_usdt_apt [OF h, of "''pancakeswap''" "''thalaswap''"]
      spread_usdc_apt_to_usdt_apt [OF h, of "''dex_a''" "''dex_b''"]
    by (simp add: default_detector_def dict_get_def dex_price_factors_def)
qed

section \<open>Impossible routes\<close>

text \<open>
  Claim C1, as stated: every route over one unordered token set with
  \<open>from_dex = to_dex\<close> gets the impossible-route signal, for every DEX identifier. It
  fails for a named DEX: the round trip usdc_apt to apt_usdc on pancakeswap alone is priced
  at 0.05 percent, and the evaluator returns a success result for it.
\<close>

theorem same_dex_round_trip_priced_counterexample:
  "is_round_trip_same_pair ''usdc_apt'' ''apt_usdc''
   \<and> calculate_price_difference default_detector ''usdc_apt'' ''apt_usdc''
        ''pancakeswap'' ''pancakeswap'' = 0.05
   \<and> isl (check_profitability default_detector
        \<lparr> in_from_pair = Some ''usdc_apt'', in_to_pair = Some ''apt_usdc'',
          in_trade_amount = Some 1000, in_custom_dex_fees = None,
          in_from_dex = Some ''pancakeswap'', in_to_dex = Some ''pancakeswap'' \<rparr>) = False"
  by code_simp

lemma charges_succeed:
  assumes "in_trade_amount input_data \<noteq> Some 0"
  shows "\<exists>r. calculate_charges self input_data = Inr r"
  using assms by (cases "in_trade_amount input_data") (simp_all add: calculate_charges_def Let_def)

lemma generic_round_trip_sentinel:
  assumes "from_dex \<in> {''dex_a'', ''dex_b''}" and "to_dex \<in> {''dex_a'', ''dex_b''}"
    and "is_round_trip_same_pair from_pair to_pair"
  shows "calculate_price_difference self from_pair to_pair from_dex to_dex = - 999.0"
  using assms unfolding calculate_price_difference_def by simp

text \<open>
  Claim C1, amended: when both DEX identifiers are generic placeholders (dex_a or dex_b,
  equal or not) and the two pairs involve the same unordered token set, the spread model
  returns the signal \<open>-999.0\<close>, whatever the prices, and for a trade amount other than
  zero the profitability evaluator returns the impossible-route error with the route.
\<close>

theorem generic_round_trip_impossible:
  assumes "in_from_pair input_data = Some from_pair" and "in_to_pair input_data = Some to_pair"
    and "in_from_dex input_data = Some from_dex" and "in_to_dex input_data = Some to_dex"
    and "from_dex \<in> {''dex_a'', ''dex_b''}" and "to_dex \<in> {''dex_a'', ''dex_b''}"
    and "is_round_trip_same_pair from_pair to_pair"
    and "in_trade_amount input_data = Some amount" and "amount \<noteq> 0"
  shows "calculate_price_difference self from_pair to_pair from_dex to_dex = - 999.0
       \<and> check_profitability self input_data
           = Inl (Impossible_arbitrage
                    \<lparr> route_from_pair = from_pair, route_to_pair = to_pair,
                      route_from_dex = from_dex, route_to_dex = to_dex,
                      route_trade_amount = amount \<rparr>
                    (current_prices self))"
proof -
  have s: "calculate_price_difference self from_pair to_pair from_dex to_dex = - 999.0"
    using assms(5-7) by (rule generic_round_trip_sentinel)
  obtain r where r: "calculate_charges self input_data = Inr r"
    using charges_succeed [of input_data self] assms(8,9) by auto
  have "check_profitability self input_data
           = Inl (Impossible_arbitrage
                    \<lparr> route_from_pair = from_pair, route_to_pair = to_pair,
                      route_from_dex = from_dex, route_to_dex = to_dex,
                      route_trade_amount = amount \<rparr>
                    (current_prices self))"
    unfolding check_profitability_def
    by (simp add: r assms(1-4,8) resolve_from_dex_def resolve_to_dex_def Let_def s)
  with s show ?thesis by simp
qed

theorem generic_round_trip_impossible_witness:
  "calculate_price_difference default_detector ''usdc_apt'' ''apt_usdc'' ''dex_a'' ''dex_a'' = - 999.0
   \<and> check_profitability default_detector
        \<lparr> in_from_pair = Some ''usdc_apt'', in_to_pair = Some ''apt_usdc'',
          in_trade_amount = Some 1000, in_custom_dex_fees = None,
          in_from_dex = Some ''dex_a'', in_to_dex = Some ''dex_a'' \<rparr>
       = Inl (Impossible_arbitrage
                \<lparr> route_from_pair = ''usdc_apt'', route_to_pair = ''apt_usdc'',
                  route_from_dex = ''dex_a'', route_to_dex = ''dex_a'',
                  route_trade_amount = 1000 \<rparr>
                (current_prices default_detector))"
proof -
  have rt: "is_round_trip_same_pair ''usdc_apt'' ''apt_usdc''"
    by (simp add: is_round_trip_same_pair_iff)
  show ?thesis
    using generic_round_trip_impossible [of
        "\<lparr> in_from_pair = Some ''usdc_apt'', in_to_pair = Some ''apt_usdc'',
          in_trade_amount = Some 1000, in_custom_dex_fees = None,
          in_from_dex = Some ''dex_a'', in_to_dex = Some ''dex_a'' \<rparr>"
        "''usdc_apt''" "''apt_usdc''" "''dex_a''" "''dex_a''" 1000 default_detector] rt
    by simp
qed

section \<open>Non-positive trade amounts\<close>

text \<open>
  Claim C2, as stated: every trade amount less than or equal to zero makes the charge
  calculation return an error result. It fails for a negative amount: for -1000 USD the
  calculation succeeds, with a negative slippage cost and total and a cost percentage of
  0.0175.
\<close>

theorem negative_amount_priced_counterexample:
  "(case calculate_charges default_detector negative_amount_input of
      Inl e \<Rightarrow> False
    | Inr r \<Rightarrow> route_trade_amount (cr_route r) = - 1000
             \<and> ch_estimated_slippage_cost_usd (cr_charges r) = - 0.2
             \<and> ch_total_fees_usd (cr_charges r) = - 0.1751
             \<and> ch_cost_percentage (cr_charges r) = 0.0175)"
  by code_simp

text \<open>
  Claim C2, amended: a trade amount of exactly zero makes the charge calculation return an
  error result (the division by the trade amount raises and is caught), so no breakdown
  ever holds a percentage divided by zero; every other amount, negative ones included, gets
  a success result with a numeric breakdown.
\<close>

theorem zero_amount_rejected:
  "(in_trade_amount input_data = Some 0
      \<longrightarrow> calculate_charges self input_data = Inl (Charge_calculation_failed ZeroDivisionError))
   \<and> (calculate_charges self input_data = Inr r \<longrightarrow> route_trade_amount (cr_route r) \<noteq> 0)
   \<and> (in_trade_amount input_data = Some a \<and> a \<noteq> 0
        \<longrightarrow> (\<exists>r'. calculate_charges self input_data = Inr r'))"
proof -
  have one: "in_trade_amount input_data = Some 0
      \<longrightarrow> calculate_charges self input_data = Inl (Charge_calculation_failed ZeroDivisionError)"
    by (simp add: calculate_charges_def Let_def)
  have two: "calculate_charges self input_data = Inr r \<longrightarrow> route_trade_amount (cr_route r) \<noteq> 0"
    by (cases "in_trade_amount input_data")
      (auto simp add: calculate_charges_def Let_def split: if_splits)
  have three: "in_trade_amount input_data = Some a \<and> a \<noteq> 0
        \<longrightarrow> (\<exists>r'. calculate_charges self input_data = Inr r')"
    using charges_succeed [of input_data self] by auto
  from one two three show ?thesis by simp
qed

theorem zero_amount_rejected_witness:
  "calculate_charges default_detector
     \<lparr> in_from_pair = None, in_to_pair = None, in_trade_amount = Some 0,
       in_custom_dex_fees = None, in_from_dex = None, in_to_dex = None \<rparr>
   = Inl (Charge_calculation_failed ZeroDivisionError)
   \<and> (\<exists>r'. calculate_charges default_detector negative_amount_input = Inr r')"
  using zero_amount_rejected [of
     "\<lparr> in_from_pair = None, in_to_pair = None, in_trade_amount = Some 0,
       in_custom_dex_fees = None, in_from_dex = None, in_to_dex = None \<rparr>" default_detector]
    zero_amount_rejected [of negative_amount_input default_detector _ "- 1000"]
  by (simp add: negative_amount_input_def)

section \<open>The empty fee schedule\<close>

text \<open>
  Claim C3, as stated: with an empty fee schedule both legs' fee percent is zero in the
  detector's and in the optimizer's cost path alike. It fails for the optimizer: with no
  fee entries it charges 0.25 and 0.30 percent, 6.8475 USD of trading fees on 1245 USD.
\<close>

theorem optimizer_default_fees_counterexample:
  "pd_from_dex_fee (calculate_profit_for_amount default_optimizer 100 1245 ''usdc'' ''usdt'' []) = 0.25
   \<and> pd_to_dex_fee (calculate_profit_for_amount default_optimizer 100 1245 ''usdc'' ''usdt'' []) = 0.30
   \<and> bd_trading_fees (pd_breakdown
        (calculate_profit_for_amount default_optimizer 100 1245 ''usdc'' ''usdt'' [])) = 6.8475"
  by code_simp

lemma leg_fees_empty: "leg_fees [] from_dex to_dex = (0, 0)"
  by (simp add: leg_fees_def)

lemma py_round_zero: "py_round 0 n = 0"
  by (simp add: py_round_def round_half_even_def)

text \<open>
  Claim C3, amended: with an empty (or absent) fee schedule the detector's charge
  calculation uses a fee percent of zero for both legs, whereas the optimizer's per-amount
  profit calculation falls back to its own defaults, 0.25 percent for the first leg and
  0.30 percent for the second.
\<close>

theorem empty_schedule_fees:
  assumes "in_custom_dex_fees input_data = None \<or> in_custom_dex_fees input_data = Some []"
    and "in_trade_amount input_data \<noteq> Some 0"
  shows "(\<exists>r. calculate_charges self input_data = Inr r
            \<and> ch_from_dex_fee_percent (cr_charges r) = 0
            \<and> ch_to_dex_fee_percent (cr_charges r) = 0
            \<and> ch_total_trading_fees_usd (cr_charges r) = 0
            \<and> \<not> ch_fees_applied (cr_charges r))
       \<and> pd_from_dex_fee (calculate_profit_for_amount s apt_amount amount f t []) = 0.25
       \<and> pd_to_dex_fee (calculate_profit_for_amount s apt_amount amount f t []) = 0.30"
proof -
  have fees: "(case in_custom_dex_fees input_data of Some d \<Rightarrow> d | None \<Rightarrow> []) = []"
    using assms(1) by auto
  have nz: "(case in_trade_amount input_data of Some a \<Rightarrow> a | None \<Rightarrow> 1000) \<noteq> (0::real)"
    using assms(2) by (cases "in_trade_amount input_data") simp_all
  have det: "\<exists>r. calculate_charges self input_data = Inr r
            \<and> ch_from_dex_fee_percent (cr_charges r) = 0
            \<and> ch_to_dex_fee_percent (cr_charges r) = 0
            \<and> ch_total_trading_fees_usd (cr_charges r) = 0
            \<and> \<not> ch_fees_applied (cr_charges r)"
    unfolding calculate_charges_def Let_def fees leg_fees_empty
    using nz by (simp add: py_round_zero)
  have opt: "pd_from_dex_fee (calculate_profit_for_amount s apt_amount amount f t []) = 0.25
       \<and> pd_to_dex_fee (calculate_profit_for_amount s apt_amount amount f t []) = 0.30"
    by (simp add: calculate_profit_for_amount_def Let_def dict_get_def opt_dex_fees_def)
  from det opt show ?thesis by simp
qed

theorem empty_schedule_fees_witness:
  "\<exists>r. calculate_charges default_detector seven_usd_input = Inr r
        \<and> ch_from_dex_fee_percent (cr_charges r) = 0
        \<and> ch_to_dex_fee_percent (cr_charges r) = 0"
proof -
  have h: "in_custom_dex_fees seven_usd_input = None \<or> in_custom_dex_fees seven_usd_input = Some []"
    "in_trade_amount seven_usd_input \<noteq> Some 0"
    by (simp_all add: seven_usd_input_def)
  show ?thesis
    using empty_schedule_fees [OF h, of default_detector default_optimizer 100 1245 "''usdc''" "''usdt''"]
    by blast
qed

section \<open>Cost components\<close>

lemma round_half_even_nonneg: "0 \<le> x \<Longrightarrow> 0 \<le> round_half_even x"
proof -
  assume "0 \<le> x"
  then have "0 \<le> \<lfloor>x\<rfloor>" by simp
  then show ?thesis by (simp add: round_half_even_def Let_def)
qed

lemma py_round_nonneg: "0 \<le> x \<Longrightarrow> 0 \<le> py_round x n"
  unfolding py_round_def
  by (intro divide_nonneg_nonneg) (simp_all add: round_half_even_nonneg)

lemma map_of_nonneg:
  assumes "\<forall>kv \<in> set d. 0 \<le> snd kv" and "map_of d k = Some v"
  shows "(0::real) \<le> v"
  using assms map_of_SomeD [of d k v] by force

lemma dict_get_nonneg:
  assumes "\<forall>kv \<in> set d. 0 \<le> snd kv" and "(0::real) \<le> dflt"
  shows "0 \<le> dict_get d k dflt"
  using assms map_of_nonneg [of d k] by (simp add: dict_get_def split: option.split)

lemma dict_index_nonneg:
  assumes "\<forall>kv \<in> set d. 0 \<le> snd kv" and "k \<in> set (dict_keys d)"
  shows "(0::real) \<le> dict_index d k"
proof -
  from assms(2) obtain v where "map_of d k = Some v"
    by (auto simp add: dict_keys_def dest: weak_map_of_SomeI)
  with assms(1) show ?thesis
    using map_of_nonneg [of d k v] by (simp add: dict_index_def)
qed

lemma py_or_nonneg:
  assumes "\<And>v. a = Some v \<Longrightarrow> 0 \<le> v" and "0 \<le> b"
  shows "0 \<le> py_or a b"
  using assms by (simp add: py_or_def split: option.split)

lemma hd_values_nonneg:
  assumes "\<forall>kv \<in> set d. 0 \<le> snd kv" and "d \<noteq> []"
  shows "(0::real) \<le> hd (dict_values d)"
  using assms by (cases d) (simp_all add: dict_values_def)

lemma generic_fee_nonneg:
  assumes "\<forall>kv \<in> set d. 0 \<le> snd kv" and "d \<noteq> []"
  shows "0 \<le> py_or (map_of d ''default'') (py_or (map_of d ''fee'') (hd (dict_values d)))"
  by (intro py_or_nonneg map_of_nonneg [OF assms(1)] hd_values_nonneg [OF assms])

lemma default_fee_value: "dict_get default_dex_fees ''default'' 0.25 = 0.25"
  by (simp add: dict_get_def default_dex_fees_def)

lemma leg_fees_nonneg:
  assumes "\<forall>kv \<in> set d. 0 \<le> snd kv"
  shows "0 \<le> fst (leg_fees d from_dex to_dex) \<and> 0 \<le> snd (leg_fees d from_dex to_dex)"
proof (cases "d = []")
  case True
  then show ?thesis by (simp add: leg_fees_def)
next
  case False
  show ?thesis
  proof (cases "filter (\<lambda>dex. dex \<notin> set generic_keys) (dict_keys d) \<noteq> []")
    case True
    with False show ?thesis
      unfolding leg_fees_def Let_def default_fee_value
      by (simp add: dict_get_nonneg [OF assms])
  next
    case nospecific: False
    show ?thesis
    proof (cases "''Smart Contract'' \<in> set (dict_keys d)")
      case True
      with False nospecific show ?thesis
        unfolding leg_fees_def Let_def
        by (simp add: dict_index_nonneg [OF assms])
    next
      case nosc: False
      with False nospecific show ?thesis
        unfolding leg_fees_def Let_def
        by (simp add: generic_fee_nonneg [OF assms False])
    qed
  qed
qed

lemma gas_cost_nonneg: "0 \<le> g \<Longrightarrow> 0 \<le> calculate_gas_cost_apt ''swap'' g"
  by (simp add: calculate_gas_cost_apt_def Let_def dict_get_def gas_unit_costs_def)

text \<open>
  Claim C4, as stated: the reported cost percentage equals the total cost divided by the
  trade amount times 100 exactly. It fails because the report is rounded: for 7 USD, no
  fees and the initial gas and apt prices the total is 0.0263 USD and the reported
  percentage is 0.3757, not 0.0263 / 7 * 100.
\<close>

theorem cost_percentage_rounded_counterexample:
  "(case calculate_charges default_detector seven_usd_input of
      Inl e \<Rightarrow> False
    | Inr r \<Rightarrow> ch_total_fees_usd (cr_charges r) = 0.0263
             \<and> unrounded_total default_detector 7 0 0 = 0.0263
             \<and> ch_cost_percentage (cr_charges r) = 0.3757
             \<and> ch_cost_percentage (cr_charges r) \<noteq> 0.0263 / 7 * 100)"
  by code_simp

text \<open>
  Claim C4, amended: for a trade amount \<open>a > 0\<close>, a fee schedule with non-negative
  percentages, a positive apt price and a non-negative gas unit price, the charge
  calculation succeeds, every reported cost component, the reported total and the reported
  cost percentage are non-negative, and the reported total and cost percentage are the
  unrounded total and the unrounded total divided by \<open>a\<close> times 100, each rounded to four
  decimal places.
\<close>

theorem charges_nonnegative_rounded:
  assumes amt: "in_trade_amount input_data = Some a" and pos: "0 < a"
    and fees: "d = (case in_custom_dex_fees input_data of Some d' \<Rightarrow> d' | None \<Rightarrow> [])"
    and nn: "\<forall>kv \<in> set d. 0 \<le> snd kv"
    and price: "0 < apt (current_prices self)" and gas: "0 \<le> cached_gas_price self"
  shows "\<exists>r. calculate_charges self input_data = Inr r
          \<and> 0 \<le> ch_from_fee_amount_usd (cr_charges r)
          \<and> 0 \<le> ch_to_fee_amount_usd (cr_charges r)
          \<and> 0 \<le> ch_total_trading_fees_usd (cr_charges r)
          \<and> 0 \<le> ch_total_gas_cost_usd (cr_charges r)
          \<and> 0 \<le> ch_estimated_slippage_cost_usd (cr_charges r)
          \<and> 0 \<le> ch_total_fees_usd (cr_charges r)
          \<and> 0 \<le> ch_cost_percentage (cr_charges r)
          \<and> 0 \<le> unrounded_total self a (ch_from_dex_fee_percent (cr_charges r))
                   (ch_to_dex_fee_percent (cr_charges r))
          \<and> ch_total_fees_usd (cr_charges r)
              = py_round (unrounded_total self a (ch_from_dex_fee_percent (cr_charges r))
                            (ch_to_dex_fee_percent (cr_charges r))) 4
          \<and> ch_cost_percentage (cr_charges r)
              = py_round (unrounded_total self a (ch_from_dex_fee_percent (cr_charges r))
                            (ch_to_dex_fee_percent (cr_charges r)) / a * 100) 4"
proof -
  define av where "av = available_dexs d"
  define ff where "ff = fst (leg_fees d (resolve_from_dex input_data av) (resolve_to_dex input_data av))"
  define tf where "tf = snd (leg_fees d (resolve_from_dex input_data av) (resolve_to_dex input_data av))"
  define gu where "gu = calculate_gas_cost_apt ''swap'' (cached_gas_price self) * 2 * apt (current_prices self)"
  have ff0: "0 \<le> ff" and tf0: "0 \<le> tf"
    using leg_fees_nonneg [OF nn] by (simp_all add: ff_def tf_def)
  have gu0: "0 \<le> gu"
    unfolding gu_def using gas_cost_nonneg [OF gas] price by simp
  have sl0: "0 \<le> a * (estimate_slippage a / 100)"
    using pos estimate_slippage_nonneg [of a] by simp
  have f1: "0 \<le> a * (ff / 100)" and f2: "0 \<le> a * (tf / 100)"
    using pos ff0 tf0 by simp_all
  have tot: "unrounded_total self a ff tf = (a * (ff / 100) + a * (tf / 100)) + gu + a * (estimate_slippage a / 100)"
    by (simp add: unrounded_total_def gu_def)
  have tot0: "0 \<le> unrounded_total self a ff tf"
    unfolding tot using f1 f2 gu0 sl0 by simp
  have res: "calculate_charges self input_data =
      Inr \<lparr> cr_route = \<lparr> route_from_pair = (case in_from_pair input_data of Some p \<Rightarrow> p | None \<Rightarrow> ''usdc_apt''),
                          route_to_pair = (case in_to_pair input_data of Some p \<Rightarrow> p | None \<Rightarrow> ''usdt_apt''),
                          route_from_dex = resolve_from_dex input_data av,
                          route_to_dex = resolve_to_dex input_data av,
                          route_trade_amount = a \<rparr>,
            cr_charges =
              \<lparr> ch_from_dex_fee_percent = ff,
                ch_to_dex_fee_percent = tf,
                ch_from_fee_amount_usd = py_round (a * (ff / 100)) 4,
                ch_to_fee_amount_usd = py_round (a * (tf / 100)) 4,
                ch_total_trading_fees_usd = py_round (a * (ff / 100) + a * (tf / 100)) 4,
                ch_fees_applied = (ff > 0 \<or> tf > 0),
                ch_gas_unit_price_octas = cached_gas_price self,
                ch_gas_units_per_swap = dict_index gas_unit_costs ''swap'',
                ch_total_gas_cost_apt = py_round (calculate_gas_cost_apt ''swap'' (cached_gas_price self) * 2) 6,
                ch_total_gas_cost_usd = py_round gu 4,
                ch_operations = 2,
                ch_apt_price_used = apt (current_prices self),
                ch_estimated_slippage_percent = estimate_slippage a,
                ch_estimated_slippage_cost_usd = py_round (a * (estimate_slippage a / 100)) 4,
                ch_total_fees_usd = py_round (unrounded_total self a ff tf) 4,
                ch_cost_percentage = py_round ((unrounded_total self a ff tf / a) * 100) 4,
                ch_all_charges_summed = py_round (unrounded_total self a ff tf) 4,
                ch_breakdown_trading_fees = py_round (a * (ff / 100) + a * (tf / 100)) 4,
                ch_breakdown_gas_costs = py_round gu 4,
                ch_breakdown_slippage = py_round (a * (estimate_slippage a / 100)) 4,
                ch_percentage_of_investment = py_round ((unrounded_total self a ff tf / a) * 100) 4 \<rparr> \<rparr>"
    unfolding calculate_charges_def Let_def tot
    using pos by (simp add: amt fees [symmetric] av_def ff_def tf_def gu_def)
  have pct0: "0 \<le> unrounded_total self a ff tf / a * 100"
    using tot0 pos by simp
  show ?thesis
    unfolding res
    using f1 f2 gu0 sl0 tot0 pct0
    by (simp add: py_round_nonneg)
qed

theorem charges_nonnegative_rounded_witness:
  "\<exists>r. calculate_charges default_detector seven_usd_input = Inr r
        \<and> 0 \<le> ch_total_fees_usd (cr_charges r)
        \<and> ch_cost_percentage (cr_charges r)
            = py_round (unrounded_total default_detector 7 (ch_from_dex_fee_percent (cr_charges r))
                          (ch_to_dex_fee_percent (cr_charges r)) / 7 * 100) 4"
proof -
  have h: "in_trade_amount seven_usd_input = Some 7" "(0::real) < 7"
    "[] = (case in_custom_dex_fees seven_usd_input of Some d' \<Rightarrow> d' | None \<Rightarrow> [])"
    "\<forall>kv \<in> set ([] :: real pydict). 0 \<le> snd kv"
    "0 < apt (current_prices default_detector)" "0 \<le> cached_gas_price default_detector"
    by (simp_all add: seven_usd_input_def default_detector_def)
  show ?thesis
    using charges_nonnegative_rounded [OF h] by blast
qed

section \<open>Break-even search\<close>














section \<open>Opportunity enumerator\<close>







lemma distinct_available_dexs:
  "distinct (dict_keys fees) \<Longrightarrow> distinct (available_dexs fees)"
  by (simp add: available_dexs_def Let_def)









end
